theory Spec2Isabelle
  imports Complex_Main
begin

section \<open>Numbers\<close>

text \<open>
  The application is written in TypeScript/JavaScript (\<^verbatim>\<open>src/src/App.tsx\<close>). A JavaScript
  number is an IEEE 754 binary64 value: a finite number, one of the two infinities, or
  \<^verbatim>\<open>NaN\<close>. The finite numbers are the reals \<open>n * 2\<^sup>k\<close> with \<open>\<bar>n\<bar> < 2\<^sup>5\<^sup>3\<close> and
  \<open>- 1074 \<le> k\<close> below \<open>2\<^sup>1\<^sup>0\<^sup>2\<^sup>4\<close> in magnitude; every arithmetic operation
  returns the exact result rounded to the nearest of them, a tie to the one with the even
  significand, and an infinity when the rounded result reaches \<open>2\<^sup>1\<^sup>0\<^sup>2\<^sup>4\<close>. The two
  zeros are one value here: the program never divides by a number that can be zero, and
  nothing else it does tells them apart.
\<close>

datatype jsnum = Fin real | PInf | NInf | NaN

text \<open>The nearest integer, a tie to the even one.\<close>

definition rne :: "real \<Rightarrow> int" where
  "rne m =
     (let f = \<lfloor>m\<rfloor> in
      if m - of_int f < 1 / 2 then f
      else if 1 / 2 < m - of_int f then f + 1
      else if even f then f else f + 1)"

text \<open>
  The binary exponent of a positive number: \<open>expo x = e\<close> where \<open>2\<^sup>e \<le> x < 2\<^sup>e\<^sup>+\<^sup>1\<close>,
  found by halving a number from 1 on and by doubling a number below 1.
\<close>

function expo_hi :: "real \<Rightarrow> int" where
  "expo_hi x = (if x < 2 then 0 else expo_hi (x / 2) + 1)"
  by pat_completeness auto
termination
proof (relation "measure (\<lambda>x. nat \<lceil>x\<rceil>)")
  show "wf (measure (\<lambda>x. nat \<lceil>x\<rceil>))" by simp
next
  fix x :: real
  assume "\<not> x < 2"
  then have "x / 2 \<le> x - 1" by simp
  then have "\<lceil>x / 2\<rceil> \<le> \<lceil>x - 1\<rceil>" by (rule ceiling_mono)
  moreover have "0 < \<lceil>x\<rceil>" using \<open>\<not> x < 2\<close> by (simp add: ceiling_less_iff not_less)
  ultimately show "(x / 2, x) \<in> measure (\<lambda>x. nat \<lceil>x\<rceil>)" by simp
qed

function expo_lo :: "real \<Rightarrow> int" where
  "expo_lo x = (if x \<le> 0 \<or> 1 \<le> x then 0 else expo_lo (2 * x) - 1)"
  by pat_completeness auto
termination
proof (relation "measure (\<lambda>x. nat \<lceil>1 / x\<rceil>)")
  show "wf (measure (\<lambda>x. nat \<lceil>1 / x\<rceil>))" by simp
next
  fix x :: real
  assume a: "\<not> (x \<le> 0 \<or> 1 \<le> x)"
  then have x: "0 < x" "x < 1" by simp_all
  then have "1 < 1 / x" by simp
  then have c: "2 \<le> \<lceil>1 / x\<rceil>" by (simp add: le_ceiling_iff)
  have "1 / (2 * x) = (1 / x) / 2" by simp
  also have "\<dots> \<le> of_int \<lceil>1 / x\<rceil> / 2" by (simp add: divide_right_mono)
  also have "\<dots> \<le> of_int (\<lceil>1 / x\<rceil> - 1)" using c by simp
  finally have "\<lceil>1 / (2 * x)\<rceil> \<le> \<lceil>1 / x\<rceil> - 1" by (rule ceiling_le)
  then have "nat \<lceil>1 / (2 * x)\<rceil> < nat \<lceil>1 / x\<rceil>" using c by linarith
  then show "(2 * x, x) \<in> measure (\<lambda>x. nat \<lceil>1 / x\<rceil>)" by simp
qed

declare expo_hi.simps [simp del] expo_lo.simps [simp del]

definition expo :: "real \<Rightarrow> int" where
  "expo x = (if 1 \<le> x then expo_hi x else expo_lo x)"

text \<open>
  The exponent of the last place of the binary64 numbers around \<open>x\<close>: 52 places below
  the exponent of \<open>x\<close>, and \<open>- 1074\<close> for the subnormal numbers.
\<close>

definition ulp_exp :: "real \<Rightarrow> int" where
  "ulp_exp x = max (expo \<bar>x\<bar>) (- 1022) - 52"

definition round_to :: "real \<Rightarrow> real" where
  "round_to x = of_int (rne (x / 2 powi ulp_exp x)) * 2 powi ulp_exp x"

definition overflow_threshold :: real where
  "overflow_threshold = 2 powi 1024"

text \<open>The binary64 value of a real result.\<close>

definition fl :: "real \<Rightarrow> jsnum" where
  "fl x =
     (if x = 0 then Fin 0
      else if overflow_threshold \<le> \<bar>round_to x\<bar> then (if 0 < x then PInf else NInf)
      else Fin (round_to x))"


text \<open>The operators \<^verbatim>\<open>-x\<close>, \<^verbatim>\<open>x + y\<close>, \<^verbatim>\<open>x - y\<close> and \<^verbatim>\<open>x * y\<close>.\<close>

fun fneg :: "jsnum \<Rightarrow> jsnum" where
  "fneg (Fin x) = Fin (- x)"
| "fneg PInf = NInf"
| "fneg NInf = PInf"
| "fneg NaN = NaN"

fun fadd :: "jsnum \<Rightarrow> jsnum \<Rightarrow> jsnum" where
  "fadd (Fin x) (Fin y) = fl (x + y)"
| "fadd NaN b = NaN"
| "fadd a NaN = NaN"
| "fadd PInf NInf = NaN"
| "fadd NInf PInf = NaN"
| "fadd PInf b = PInf"
| "fadd a PInf = PInf"
| "fadd NInf b = NInf"
| "fadd a NInf = NInf"

definition fsub :: "jsnum \<Rightarrow> jsnum \<Rightarrow> jsnum" where
  "fsub a b = fadd a (fneg b)"

fun fmul :: "jsnum \<Rightarrow> jsnum \<Rightarrow> jsnum" where
  "fmul (Fin x) (Fin y) = fl (x * y)"
| "fmul NaN b = NaN"
| "fmul a NaN = NaN"
| "fmul PInf (Fin y) = (if y = 0 then NaN else if 0 < y then PInf else NInf)"
| "fmul NInf (Fin y) = (if y = 0 then NaN else if 0 < y then NInf else PInf)"
| "fmul (Fin x) PInf = (if x = 0 then NaN else if 0 < x then PInf else NInf)"
| "fmul (Fin x) NInf = (if x = 0 then NaN else if 0 < x then NInf else PInf)"
| "fmul PInf PInf = PInf"
| "fmul PInf NInf = NInf"
| "fmul NInf PInf = NInf"
| "fmul NInf NInf = PInf"

text \<open>
  \<^verbatim>\<open>x / y\<close> where \<open>y\<close> is a positive numeric literal; the program has no other
  division in the functions below.
\<close>

fun fdiv :: "jsnum \<Rightarrow> real \<Rightarrow> jsnum" where
  "fdiv (Fin x) y = fl (x / y)"
| "fdiv PInf y = PInf"
| "fdiv NInf y = NInf"
| "fdiv NaN y = NaN"

text \<open>
  \<^verbatim>\<open>Math.round\<close> rounds to the nearest integer, a tie towards plus infinity; it leaves
  the infinities and \<^verbatim>\<open>NaN\<close> as they are. \<^verbatim>\<open>Math.max\<close> is \<^verbatim>\<open>NaN\<close> when an
  argument is.
\<close>

fun Math_round :: "jsnum \<Rightarrow> jsnum" where
  "Math_round (Fin x) = Fin (of_int \<lfloor>x + 1 / 2\<rfloor>)"
| "Math_round PInf = PInf"
| "Math_round NInf = NInf"
| "Math_round NaN = NaN"

fun Math_max :: "jsnum \<Rightarrow> jsnum \<Rightarrow> jsnum" where
  "Math_max NaN b = NaN"
| "Math_max a NaN = NaN"
| "Math_max PInf b = PInf"
| "Math_max a PInf = PInf"
| "Math_max NInf b = b"
| "Math_max a NInf = a"
| "Math_max (Fin x) (Fin y) = Fin (max x y)"

text \<open>A number is falsy exactly when it is zero or \<^verbatim>\<open>NaN\<close>.\<close>

fun js_truthy :: "jsnum \<Rightarrow> bool" where
  "js_truthy (Fin x) = (x \<noteq> 0)"
| "js_truthy NaN = False"
| "js_truthy PInf = True"
| "js_truthy NInf = True"




section \<open>Macro calculator\<close>

text \<open>
  The object \<^verbatim>\<open>computeMacros\<close> returns has the four fields below; the targets of the
  application state carry the goal weight as well.
\<close>

record macros =
  calories :: jsnum
  protein :: jsnum
  fat :: jsnum
  carbs :: jsnum

record targets = macros +
  goalWeight :: jsnum

text \<open>
  \<^verbatim>\<open>
  function computeMacros(goalWeight, calories) {
    if (!goalWeight || !calories) return null;
    const proteinGrams = goalWeight; // 1 g per lb
    const proteinCalories = proteinGrams * 4;
    const fatCalories = calories * 0.25;
    const fatGrams = fatCalories / 9;
    const carbCalories = calories - (proteinCalories + fatCalories);
    const carbGrams = carbCalories / 4;
    return {
      calories: Math.round(calories),
      protein: Math.round(proteinGrams),
      fat: Math.round(fatGrams),
      carbs: Math.max(0, Math.round(carbGrams)),
    };
  }\<close>
  \<^verbatim>\<open>null\<close> is \<open>None\<close>.
\<close>

definition computeMacros :: "jsnum \<Rightarrow> jsnum \<Rightarrow> macros option" where
  "computeMacros goalWeight' calories' =
     (if \<not> js_truthy goalWeight' \<or> \<not> js_truthy calories' then None
      else
        let proteinGrams = goalWeight';
            proteinCalories = fmul proteinGrams (Fin 4);
            fatCalories = fmul calories' (Fin (1 / 4));
            fatGrams = fdiv fatCalories 9;
            carbCalories = fsub calories' (fadd proteinCalories fatCalories);
            carbGrams = fdiv carbCalories 4
        in Some \<lparr>calories = Math_round calories',
                  protein = Math_round proteinGrams,
                  fat = Math_round fatGrams,
                  carbs = Math_max (Fin 0) (Math_round carbGrams)\<rparr>)"

section \<open>Field values and arrays\<close>

text \<open>
  A numeric field of a day or of an exercise (calories, weight, ...) holds a number, or
  the empty string \<^verbatim>\<open>''\<close> the program writes for "not entered", or it is
  \<^verbatim>\<open>undefined\<close> (the key is absent from the object, which happens for imported
  objects and for objects spread from \<^verbatim>\<open>undefined\<close>).
\<close>

datatype numfield = Unset | Empty | Num jsnum





text \<open>
  A JavaScript array is a list of slots. A slot holds a value, or \<^verbatim>\<open>undefined\<close>
  (also standing for \<^verbatim>\<open>null\<close>, which the operations below treat alike), or it is a
  hole of a sparse array: an index assignment past the end leaves holes, a spread
  \<^verbatim>\<open>[...xs]\<close> reads them as \<^verbatim>\<open>undefined\<close>, \<^verbatim>\<open>filter\<close> drops them,
  \<^verbatim>\<open>map\<close> keeps them without calling its function.
\<close>

datatype 'a slot = Hole | Undef | Val 'a

type_synonym 'a js_array = "'a slot list"

text \<open>\<^verbatim>\<open>xs[i]\<close>: \<open>None\<close> is \<^verbatim>\<open>undefined\<close>.\<close>

definition js_read :: "'a js_array \<Rightarrow> nat \<Rightarrow> 'a option" where
  "js_read xs i =
     (if i < length xs then (case xs ! i of Val x \<Rightarrow> Some x | Undef \<Rightarrow> None | Hole \<Rightarrow> None)
      else None)"

text \<open>\<^verbatim>\<open>[...xs]\<close>\<close>

definition js_copy :: "'a js_array \<Rightarrow> 'a js_array" where
  "js_copy xs = map (\<lambda>s. case s of Hole \<Rightarrow> Undef | Undef \<Rightarrow> Undef | Val x \<Rightarrow> Val x) xs"

text \<open>\<^verbatim>\<open>xs[i] = v\<close>: past the end the array is extended, the slots between are holes.\<close>

definition js_assign :: "'a js_array \<Rightarrow> nat \<Rightarrow> 'a \<Rightarrow> 'a js_array" where
  "js_assign xs i v =
     (if i < length xs then xs[i := Val v]
      else xs @ replicate (i - length xs) Hole @ [Val v])"

text \<open>\<^verbatim>\<open>xs.filter((_, i) => i !== idx)\<close>\<close>

definition js_filter_index :: "nat \<Rightarrow> 'a js_array \<Rightarrow> 'a js_array" where
  "js_filter_index idx xs =
     map snd (filter (\<lambda>(i, s). (case s of Hole \<Rightarrow> False | Undef \<Rightarrow> i \<noteq> idx | Val x \<Rightarrow> i \<noteq> idx))
                     (enumerate 0 xs))"

text \<open>
  \<^verbatim>\<open>xs.splice(start, 1, ...items)\<close> on an array without holes: a start past the end
  is the length, and then nothing is removed.
\<close>

definition js_splice1 :: "'a js_array \<Rightarrow> nat \<Rightarrow> 'a js_array \<Rightarrow> 'a js_array" where
  "js_splice1 xs start items = take start xs @ items @ drop (Suc start) xs"


section \<open>Data model\<close>

text \<open>
  An exercise entry. A string field is \<open>None\<close> when the key is absent (\<^verbatim>\<open>undefined\<close>).
\<close>

record exercise =
  category :: "string option"
  type :: "string option"
  group :: "string option"
  name :: "string option"
  weight :: numfield
  sets :: numfield
  reps :: numfield
  duration :: numfield

text \<open>The object \<^verbatim>\<open>{}\<close> read as an exercise: every field undefined.\<close>

definition no_exercise :: exercise where
  "no_exercise = \<lparr>category = None, type = None, group = None, name = None,
                   weight = Unset, sets = Unset, reps = Unset, duration = Unset\<rparr>"

text \<open>
  The \<^verbatim>\<open>partial\<close> argument of \<^verbatim>\<open>updateExercise\<close>: an object with some of the keys of
  an exercise. \<open>None\<close> is an absent key.
\<close>

record exercise_patch =
  category_p :: "string option"
  type_p :: "string option"
  group_p :: "string option"
  name_p :: "string option"
  weight_p :: "numfield option"
  sets_p :: "numfield option"
  reps_p :: "numfield option"
  duration_p :: "numfield option"

definition no_patch :: exercise_patch where
  "no_patch = \<lparr>category_p = None, type_p = None, group_p = None, name_p = None,
                weight_p = None, sets_p = None, reps_p = None, duration_p = None\<rparr>"

text \<open>
  \<^verbatim>\<open>{ ...base, ...partial }\<close>, where \<^verbatim>\<open>base\<close> may be \<^verbatim>\<open>undefined\<close> (spread as
  \<^verbatim>\<open>{}\<close>).
\<close>

definition merge_exercise :: "exercise option \<Rightarrow> exercise_patch \<Rightarrow> exercise" where
  "merge_exercise base p =
     (let b = (case base of None \<Rightarrow> no_exercise | Some e \<Rightarrow> e) in
      \<lparr>category = (case category_p p of None \<Rightarrow> category b | Some v \<Rightarrow> Some v),
       type = (case type_p p of None \<Rightarrow> type b | Some v \<Rightarrow> Some v),
       group = (case group_p p of None \<Rightarrow> group b | Some v \<Rightarrow> Some v),
       name = (case name_p p of None \<Rightarrow> name b | Some v \<Rightarrow> Some v),
       weight = (case weight_p p of None \<Rightarrow> weight b | Some v \<Rightarrow> v),
       sets = (case sets_p p of None \<Rightarrow> sets b | Some v \<Rightarrow> v),
       reps = (case reps_p p of None \<Rightarrow> reps b | Some v \<Rightarrow> v),
       duration = (case duration_p p of None \<Rightarrow> duration b | Some v \<Rightarrow> v)\<rparr>)"

text \<open>
  A day record. \<open>exercises\<close> is \<open>None\<close> when the key is absent; the program reads it as
  \<^verbatim>\<open>d.exercises || []\<close>.
\<close>

record day =
  date :: "string option"
  day_calories :: numfield
  day_protein :: numfield
  day_carbs :: numfield
  day_fat :: numfield
  exercises :: "exercise js_array option"

definition no_day :: day where
  "no_day = \<lparr>date = None, day_calories = Unset, day_protein = Unset, day_carbs = Unset,
              day_fat = Unset, exercises = None\<rparr>"

text \<open>\<^verbatim>\<open>d.exercises || []\<close>: an array is truthy, also when it is empty.\<close>

definition exercisesOrEmpty :: "day \<Rightarrow> exercise js_array" where
  "exercisesOrEmpty d = (case exercises d of Some exs \<Rightarrow> exs | None \<Rightarrow> [])"

text \<open>The \<^verbatim>\<open>partial\<close> argument of \<^verbatim>\<open>setActiveDay\<close>.\<close>

record day_patch =
  date_p :: "string option"
  calories_p :: "numfield option"
  protein_p :: "numfield option"
  carbs_p :: "numfield option"
  fat_p :: "numfield option"
  exercises_p :: "exercise js_array option"

definition no_day_patch :: day_patch where
  "no_day_patch = \<lparr>date_p = None, calories_p = None, protein_p = None, carbs_p = None,
                    fat_p = None, exercises_p = None\<rparr>"

definition merge_day :: "day option \<Rightarrow> day_patch \<Rightarrow> day" where
  "merge_day base p =
     (let b = (case base of None \<Rightarrow> no_day | Some d \<Rightarrow> d) in
      \<lparr>date = (case date_p p of None \<Rightarrow> date b | Some v \<Rightarrow> Some v),
       day_calories = (case calories_p p of None \<Rightarrow> day_calories b | Some v \<Rightarrow> v),
       day_protein = (case protein_p p of None \<Rightarrow> day_protein b | Some v \<Rightarrow> v),
       day_carbs = (case carbs_p p of None \<Rightarrow> day_carbs b | Some v \<Rightarrow> v),
       day_fat = (case fat_p p of None \<Rightarrow> day_fat b | Some v \<Rightarrow> v),
       exercises = (case exercises_p p of None \<Rightarrow> exercises b | Some v \<Rightarrow> Some v)\<rparr>)"

text \<open>
  \<^verbatim>\<open>
  const emptyDay = (dateStr) => ({
    date: dateStr || todayISO(),
    calories: '', protein: '', carbs: '', fat: '',
    exercises: [],
  });\<close>
  \<^verbatim>\<open>todayISO()\<close> reads the clock; its result is the parameter \<open>today\<close>.
\<close>

definition emptyDay :: "string \<Rightarrow> string \<Rightarrow> day" where
  "emptyDay today dateStr =
     \<lparr>date = Some (if dateStr \<noteq> [] then dateStr else today),
      day_calories = Empty, day_protein = Empty, day_carbs = Empty, day_fat = Empty,
      exercises = Some []\<rparr>"

section \<open>Exercise catalog\<close>

text \<open>
  \<^verbatim>\<open>EXERCISE_TREE\<close> is an object literal of object literals whose leaves are arrays of
  names. An object is the list of its own keys and values, in insertion order.
\<close>

definition EXERCISE_TREE :: "(string \<times> (string \<times> (string \<times> string list) list) list) list" where
  "EXERCISE_TREE =
     [(''Cardio'',
        [(''LISS'', [(''-'', [''Treadmill'', ''Stair Master'', ''Elliptical''])]),
         (''HIIT'', [(''-'', [''Treadmill'', ''Stair Master'', ''Elliptical''])])]),
      (''Strength'',
        [(''Pull'',
           [(''Back'', [''Seated low row'', ''Lat pulldown (wide grip)'',
                        ''Lat pulldown (short grip)'', ''Bent over row'']),
            (''Bicep'', [''EZ bar curl'', ''Dumbbell hammer curl'', ''Cable rope curl''])]),
         (''Push'',
           [(''Chest'', [''Flat bench press'', ''Incline bench press'', ''Cable chest fly'']),
            (''Shoulders'', [''Barbell or dumbbell shoulder press'', ''Lateral raise'',
               ''Front raise / Side raise / Around-the-world (alternate weekly)'']),
            (''Triceps'', [''Cable triceps pushdown'', ''Bar triceps pushdown'',
               ''Overhead cable triceps extension''])]),
         (''Legs'',
           [(''Legs + Glutes + Calves'',
              [''Dumbbell squat (shoulder hold)'', ''Sumo squat (front hold)'',
               ''Romanian deadlift'', ''Curtsy lunge / Side lunge (alternate weekly)'',
               ''Standing calf raise'', ''Seated calf raise''])])])]"

text \<open>
  A property access \<^verbatim>\<open>obj[key]\<close> on an object literal finds the object's own key, or
  else a member the object inherits from \<^verbatim>\<open>Object.prototype\<close>, or else
  \<^verbatim>\<open>undefined\<close>. The members of \<^verbatim>\<open>Object.prototype\<close> are the same in every
  runtime the application has (ECMAScript, with its annex for browsers):
\<close>

definition Object_prototype_keys :: "string list" where
  "Object_prototype_keys =
     [''constructor'', ''hasOwnProperty'', ''isPrototypeOf'', ''propertyIsEnumerable'',
      ''toLocaleString'', ''toString'', ''valueOf'', ''__proto__'',
      ''__defineGetter__'', ''__defineSetter__'', ''__lookupGetter__'', ''__lookupSetter__'']"

datatype 'a found = Missing | Own 'a | Inherited string

definition js_lookup :: "(string \<times> 'a) list \<Rightarrow> string \<Rightarrow> 'a found" where
  "js_lookup obj k =
     (case map_of obj k of
        Some v \<Rightarrow> Own v
      | None \<Rightarrow> (if k \<in> set Object_prototype_keys then Inherited k else Missing))"

text \<open>
  \<^verbatim>\<open>
  const getTypes = (cat) =>
    cat && EXERCISE_TREE[cat] ? Object.keys(EXERCISE_TREE[cat]) : [];\<close>
  An inherited member is a built-in function or \<^verbatim>\<open>Object.prototype\<close> itself: it is
  truthy and has no enumerable key of its own, so \<^verbatim>\<open>Object.keys\<close> of it is empty.
\<close>

definition getTypes :: "string \<Rightarrow> string list" where
  "getTypes cat =
     (if cat = [] then []
      else case js_lookup EXERCISE_TREE cat of
             Own types \<Rightarrow> map fst types
           | Inherited k \<Rightarrow> []
           | Missing \<Rightarrow> [])"

text \<open>
  Below an inherited member the lookups of \<^verbatim>\<open>getGroups\<close> and \<^verbatim>\<open>getExercises\<close>
  go on into the built-in objects of the runtime. What the runtime holds there is the
  parameter \<open>rt\<close>: for a path \<open>[k, k', ...]\<close> that starts at the member \<open>k\<close> of
  \<^verbatim>\<open>Object.prototype\<close>, \<open>rt\<close> tells what the optional chain
  \<^verbatim>\<open>Object.prototype[k]?.[k']...\<close> evaluates to: nothing or another falsy value
  (\<open>Absent\<close>), a truthy value with the given \<^verbatim>\<open>Object.keys\<close> (\<open>Present\<close>), or an
  exception raised by an accessor on the way (\<open>Raises\<close>).
\<close>

datatype rtval = Absent | Present "string list" | Raises

text \<open>
  What \<^verbatim>\<open>getGroups\<close> and \<^verbatim>\<open>getExercises\<close> return: a sequence of strings
  (\<open>Seq\<close>); or the inherited member of \<^verbatim>\<open>Object.prototype\<close> under the given key
  itself, which is not an array (\<open>Builtin\<close>); or the truthy value the runtime holds at
  the given path below an inherited member, returned as it is (\<open>RuntimeValue\<close>); or
  nothing, because the lookup raised an exception (\<open>Raised\<close>).
\<close>

datatype catalog_result =
  Seq "string list" | Builtin string | RuntimeValue "string list" | Raised

text \<open>
  \<^verbatim>\<open>
  const getGroups = (cat, type) =>
    cat && type && EXERCISE_TREE[cat]?.[type]
      ? Object.keys(EXERCISE_TREE[cat][type])
      : [];\<close>
\<close>

definition getGroups :: "(string list \<Rightarrow> rtval) \<Rightarrow> string \<Rightarrow> string \<Rightarrow> catalog_result" where
  "getGroups rt cat type' =
     (if cat = [] \<or> type' = [] then Seq []
      else case js_lookup EXERCISE_TREE cat of
             Missing \<Rightarrow> Seq []
           | Inherited k \<Rightarrow>
               (case rt [k, type'] of
                  Absent \<Rightarrow> Seq []
                | Present ks \<Rightarrow> Seq ks
                | Raises \<Rightarrow> Raised)
           | Own types \<Rightarrow>
               (case js_lookup types type' of
                  Missing \<Rightarrow> Seq []
                | Inherited k \<Rightarrow> Seq []
                | Own groups \<Rightarrow> Seq (map fst groups)))"

text \<open>
  \<^verbatim>\<open>
  const getExercises = (cat, type, group) =>
    cat && type && group && EXERCISE_TREE[cat]?.[type]?.[group]
      ? EXERCISE_TREE[cat][type][group]
      : [];\<close>
  The value found is returned as it is; an array is truthy, an inherited member too.
\<close>

definition getExercises ::
  "(string list \<Rightarrow> rtval) \<Rightarrow> string \<Rightarrow> string \<Rightarrow> string \<Rightarrow> catalog_result" where
  "getExercises rt cat type' group' =
     (if cat = [] \<or> type' = [] \<or> group' = [] then Seq []
      else case js_lookup EXERCISE_TREE cat of
             Missing \<Rightarrow> Seq []
           | Inherited k \<Rightarrow>
               (case rt [k, type', group'] of
                  Absent \<Rightarrow> Seq []
                | Present ks \<Rightarrow> RuntimeValue [k, type', group']
                | Raises \<Rightarrow> Raised)
           | Own types \<Rightarrow>
               (case js_lookup types type' of
                  Missing \<Rightarrow> Seq []
                | Inherited k \<Rightarrow>
                    (case rt [k, group'] of
                       Absent \<Rightarrow> Seq []
                     | Present ks \<Rightarrow> RuntimeValue [k, group']
                     | Raises \<Rightarrow> Raised)
                | Own groups \<Rightarrow>
                    (case js_lookup groups group' of
                       Missing \<Rightarrow> Seq []
                     | Inherited k \<Rightarrow> Builtin k
                     | Own names \<Rightarrow> Seq names)))"

section \<open>Application state and its operations\<close>

text \<open>
  The component keeps \<^verbatim>\<open>state = {targets, days}\<close> (the AppState), the index of the
  active day and the index armed for deletion in three \<^verbatim>\<open>useState\<close> cells; the record
  holds the three. Every operation below is one event handler, run to completion.
\<close>

record app =
  targets :: targets
  days :: "day js_array"
  activeIdx :: nat
  deleteConfirmIdx :: "nat option"

definition defaultTargets :: targets where
  "defaultTargets = \<lparr>calories = Fin 1800, protein = Fin 130, fat = Fin 60, carbs = Fin 160,
                      goalWeight = Fin 150\<rparr>"

text \<open>
  \<^verbatim>\<open>const activeDay = state.days[activeIdx] || emptyDay(todayISO());\<close>
\<close>

definition activeDay :: "string \<Rightarrow> app \<Rightarrow> day" where
  "activeDay today a =
     (case js_read (days a) (activeIdx a) of Some d \<Rightarrow> d | None \<Rightarrow> emptyDay today today)"

text \<open>
  \<^verbatim>\<open>
  const setActiveDay = (partial) => {
    setState((prev) => {
      const days = [...prev.days];
      days[activeIdx] = { ...days[activeIdx], ...partial };
      return { ...prev, days };
    });
  };\<close>
\<close>

definition setActiveDay :: "day_patch \<Rightarrow> app \<Rightarrow> app" where
  "setActiveDay partial a =
     (let days' = js_copy (days a) in
      a\<lparr>days := js_assign days' (activeIdx a) (merge_day (js_read days' (activeIdx a)) partial)\<rparr>)"

text \<open>
  \<^verbatim>\<open>
  const addNewDay = () => {
    const nextDate = todayISO();
    setState((prev) => ({ ...prev, days: [emptyDay(nextDate), ...prev.days] }));
    setActiveIdx(0);
  };\<close>
\<close>

definition addNewDay :: "string \<Rightarrow> app \<Rightarrow> app" where
  "addNewDay today a =
     a\<lparr>days := Val (emptyDay today today) # js_copy (days a), activeIdx := 0\<rparr>"

text \<open>
  \<^verbatim>\<open>
  const deleteDay = (idx) => {
    setState((prev) => {
      const days = prev.days.filter((_, i) => i !== idx);
      return { ...prev, days: days.length ? days : [emptyDay(todayISO())] };
    });
    setActiveIdx((prev) => Math.max(0, prev - 1));
    setDeleteConfirmIdx(null);
  };\<close>
\<close>

definition deleteDay :: "string \<Rightarrow> nat \<Rightarrow> app \<Rightarrow> app" where
  "deleteDay today idx a =
     (let days' = js_filter_index idx (days a) in
      a\<lparr>days := (if length days' \<noteq> 0 then days' else [Val (emptyDay today today)]),
        activeIdx := nat (max 0 (int (activeIdx a) - 1)),
        deleteConfirmIdx := None\<rparr>)"

text \<open>
  \<^verbatim>\<open>
  const addExercise = () => {
    const ex = { category: '', type: '', group: '', name: '',
                 weight: '', sets: '', reps: '', duration: '' };
    setActiveDay({ exercises: [...(activeDay.exercises || []), ex] });
  };\<close>
\<close>

definition addExercise :: "string \<Rightarrow> app \<Rightarrow> app" where
  "addExercise today a =
     (let ex = \<lparr>category = Some [], type = Some [], group = Some [], name = Some [],
                weight = Empty, sets = Empty, reps = Empty, duration = Empty\<rparr>
      in setActiveDay
           (no_day_patch\<lparr>exercises_p :=
              Some (js_copy (exercisesOrEmpty (activeDay today a)) @ [Val ex])\<rparr>) a)"

text \<open>
  \<^verbatim>\<open>
  const updateExercise = (exIdx, partial) => {
    setState((prev) => {
      const days = [...prev.days];
      const d = { ...days[activeIdx] };
      const exs = [...(d.exercises || [])];
      exs[exIdx] = { ...exs[exIdx], ...partial };
      d.exercises = exs;
      days[activeIdx] = d;
      return { ...prev, days };
    });
  };\<close>
  \<^verbatim>\<open>{ ...days[activeIdx] }\<close> is the day there, or \<^verbatim>\<open>{}\<close> when there is none.
\<close>

definition spread_day :: "day option \<Rightarrow> day" where
  "spread_day base = (case base of None \<Rightarrow> no_day | Some d \<Rightarrow> d)"

definition updateExercise :: "nat \<Rightarrow> exercise_patch \<Rightarrow> app \<Rightarrow> app" where
  "updateExercise exIdx partial a =
     (let days' = js_copy (days a);
          d = spread_day (js_read days' (activeIdx a));
          exs = js_copy (exercisesOrEmpty d);
          exs' = js_assign exs exIdx (merge_exercise (js_read exs exIdx) partial);
          d' = d\<lparr>exercises := Some exs'\<rparr>
      in a\<lparr>days := js_assign days' (activeIdx a) d'\<rparr>)"

text \<open>
  \<^verbatim>\<open>
  const removeExercise = (exIdx) => {
    setState((prev) => {
      const days = [...prev.days];
      const d = { ...days[activeIdx] };
      d.exercises = (d.exercises || []).filter((_, i) => i !== exIdx);
      days[activeIdx] = d;
      return { ...prev, days };
    });
  };\<close>
\<close>

definition removeExercise :: "nat \<Rightarrow> app \<Rightarrow> app" where
  "removeExercise exIdx a =
     (let days' = js_copy (days a);
          d = spread_day (js_read days' (activeIdx a));
          d' = d\<lparr>exercises := Some (js_filter_index exIdx (exercisesOrEmpty d))\<rparr>
      in a\<lparr>days := js_assign days' (activeIdx a) d'\<rparr>)"

text \<open>
  \<^verbatim>\<open>
  const replaceExerciseWithAll = (exIdx, cat, type, group, names) => {
    setState((prev) => {
      const days = [...prev.days];
      const d = { ...days[activeIdx] };
      const exs = [...(d.exercises || [])];
      // Remove current row and insert one row per exercise
      exs.splice(exIdx, 1,
        ...names.map((n) => ({ category: cat, type, group, name: n,
                               weight: '', sets: '', reps: '', duration: '' })));
      d.exercises = exs;
      days[activeIdx] = d;
      return { ...prev, days };
    });
  };\<close>
\<close>

definition replaceExerciseWithAll ::
  "nat \<Rightarrow> string option \<Rightarrow> string option \<Rightarrow> string option \<Rightarrow> string list \<Rightarrow> app \<Rightarrow> app" where
  "replaceExerciseWithAll exIdx cat type' group' names a =
     (let days' = js_copy (days a);
          d = spread_day (js_read days' (activeIdx a));
          exs = js_copy (exercisesOrEmpty d);
          exs' = js_splice1 exs exIdx
                   (map (\<lambda>n. Val \<lparr>category = cat, type = type', group = group', name = Some n,
                                   weight = Empty, sets = Empty, reps = Empty, duration = Empty\<rparr>)
                        names);
          d' = d\<lparr>exercises := Some exs'\<rparr>
      in a\<lparr>days := js_assign days' (activeIdx a) d'\<rparr>)"

text \<open>
  The \<^verbatim>\<open>onChange\<close> handler of the exercise-name selector of entry \<open>i\<close>. It closes over
  the entry \<open>ex\<close> and over \<open>names\<close>, the array the render computed as
  \<^verbatim>\<open>getExercises(ex.category, ex.type, ex.group)\<close>; \<open>v\<close> is the selected value.
  \<^verbatim>\<open>
  const isCardio = ex.category === 'Cardio';
  ...
  onChange={(e) => {
    const v = e.target.value;
    if (v === '__ALL__') {
      replaceExerciseWithAll(i, ex.category, ex.type, isCardio ? '-' : ex.group, names);
    } else {
      updateExercise(i, { name: v });
    }
  }}\<close>
\<close>

definition onNameSelect :: "nat \<Rightarrow> exercise \<Rightarrow> string list \<Rightarrow> string \<Rightarrow> app \<Rightarrow> app" where
  "onNameSelect i ex names v a =
     (let isCardio = (category ex = Some ''Cardio'') in
      if v = ''__ALL__''
      then replaceExerciseWithAll i (category ex) (type ex)
             (if isCardio then Some ''-'' else group ex) names a
      else updateExercise i (no_patch\<lparr>name_p := Some v\<rparr>) a)"


text \<open>
  \<^verbatim>\<open>
  const recalcMacros = (goalWeight, calories) => {
    const m = computeMacros(goalWeight, calories);
    if (!m) return;
    setState((prev) => ({ ...prev, targets: { ...prev.targets, ...m, goalWeight } }));
  };\<close>
\<close>

definition recalcMacros :: "jsnum \<Rightarrow> jsnum \<Rightarrow> app \<Rightarrow> app" where
  "recalcMacros goalWeight' calories' a =
     (case computeMacros goalWeight' calories' of
        None \<Rightarrow> a
      | Some m \<Rightarrow>
          a\<lparr>targets := (targets a)\<lparr>calories := calories m, protein := protein m,
                                   fat := fat m, carbs := carbs m,
                                   goalWeight := goalWeight'\<rparr>\<rparr>)"





text \<open>
  \<^verbatim>\<open>const defaultState = { targets: defaultTargets, days: [emptyDay(todayISO())] };\<close>
  with the initial values of the two other cells.
\<close>

definition defaultState :: "string \<Rightarrow> app" where
  "defaultState today =
     \<lparr>targets = defaultTargets, days = [Val (emptyDay today today)],
      activeIdx = 0, deleteConfirmIdx = None\<rparr>"

section \<open>JSON import\<close>

text \<open>
  The \<^verbatim>\<open>targets\<close> object of an imported file: an object with some of the keys of the
  targets. \<open>None\<close> is an absent key.
\<close>

record targets_patch =
  calories_t :: "jsnum option"
  protein_t :: "jsnum option"
  carbs_t :: "jsnum option"
  fat_t :: "jsnum option"
  goalWeight_t :: "jsnum option"

definition no_targets_patch :: targets_patch where
  "no_targets_patch = \<lparr>calories_t = None, protein_t = None, carbs_t = None, fat_t = None,
                        goalWeight_t = None\<rparr>"

text \<open>\<^verbatim>\<open>{ ...defaultTargets, ...patch }\<close>\<close>

definition merge_targets :: "targets \<Rightarrow> targets_patch \<Rightarrow> targets" where
  "merge_targets b p =
     \<lparr>calories = (case calories_t p of None \<Rightarrow> calories b | Some v \<Rightarrow> v),
      protein = (case protein_t p of None \<Rightarrow> protein b | Some v \<Rightarrow> v),
      fat = (case fat_t p of None \<Rightarrow> fat b | Some v \<Rightarrow> v),
      carbs = (case carbs_t p of None \<Rightarrow> carbs b | Some v \<Rightarrow> v),
      goalWeight = (case goalWeight_t p of None \<Rightarrow> goalWeight b | Some v \<Rightarrow> v)\<rparr>"

text \<open>
  The \<^verbatim>\<open>days\<close> property of the parsed value, as far as \<^verbatim>\<open>importJSON\<close> reads it:
  absent or \<^verbatim>\<open>null\<close> (\<open>DaysAbsent\<close>); an array of day objects, \<^verbatim>\<open>null\<close> entries
  being \<open>Undef\<close> (\<open>DaysArray\<close>); a string (\<open>DaysText\<close>); or any other value, a number,
  a boolean or an object that is not an array, of which only the truthiness of its
  \<^verbatim>\<open>length\<close> property matters (\<open>DaysOther\<close>; a number and a boolean have no
  \<^verbatim>\<open>length\<close>).
\<close>

datatype days_value =
  DaysAbsent | DaysArray "day js_array" | DaysText string | DaysOther bool

text \<open>\<^verbatim>\<open>days?.length\<close> as a condition.\<close>

definition truthy_length :: "days_value \<Rightarrow> bool" where
  "truthy_length v =
     (case v of
        DaysAbsent \<Rightarrow> False
      | DaysArray ds \<Rightarrow> length ds \<noteq> 0
      | DaysText s \<Rightarrow> length s \<noteq> 0
      | DaysOther b \<Rightarrow> b)"

text \<open>
  What \<^verbatim>\<open>JSON.parse\<close> returned: \<open>NotAnObject\<close> is \<^verbatim>\<open>null\<close> or a value without
  a \<^verbatim>\<open>days\<close> property (a number, a string, a boolean, an array); \<open>Object t v\<close> is an
  object whose \<^verbatim>\<open>targets\<close> property is \<open>t\<close> (\<open>None\<close>: absent or falsy; otherwise
  an object with numeric fields) and whose \<^verbatim>\<open>days\<close> property is \<open>v\<close>.
\<close>

datatype parsed = NotAnObject | Object "targets_patch option" days_value

text \<open>
  The application state after an import: a state as before (\<open>State\<close>), or a state whose
  \<^verbatim>\<open>days\<close> is not an array (\<open>Broken\<close>, with the targets, the value of \<^verbatim>\<open>days\<close>
  and the two index cells). No operation of the application is defined on the latter:
  the next render calls \<^verbatim>\<open>state.days.map\<close>, which such a value does not have.
\<close>

datatype import_state = State app | Broken targets days_value nat "nat option"

text \<open>
  \<^verbatim>\<open>
  const importJSON = (e) => {
    const file = e.target.files?.[0];
    if (!file) return;
    const reader = new FileReader();
    reader.onload = () => {
      try {
        const parsed = JSON.parse(String(reader.result));
        if (parsed?.days?.length) {
          setState({
            targets: { ...defaultTargets, ...(parsed.targets || {}) },
            days: parsed.days,
          });
          setActiveIdx(0);
        }
      } catch (err) {
        alert('Invalid JSON file');
      }
    };
    reader.readAsText(file);
    e.target.value = '';
  };\<close>
  \<open>parse\<close> is \<^verbatim>\<open>JSON.parse\<close> (\<open>None\<close>: it throws); \<open>chosen\<close> is the text of the
  chosen file (\<open>None\<close>: no file was chosen). The result is the new state with the alerts
  shown to the user.
\<close>

definition importJSON ::
  "(string \<Rightarrow> parsed option) \<Rightarrow> string option \<Rightarrow> app \<Rightarrow> import_state \<times> string list" where
  "importJSON parse chosen a =
     (case chosen of
        None \<Rightarrow> (State a, [])
      | Some content \<Rightarrow>
          (case parse content of
             None \<Rightarrow> (State a, [''Invalid JSON file''])
           | Some NotAnObject \<Rightarrow> (State a, [])
           | Some (Object t v) \<Rightarrow>
               (if truthy_length v
                then (let targets' = merge_targets defaultTargets
                                       (case t of None \<Rightarrow> no_targets_patch | Some tp \<Rightarrow> tp)
                      in case v of
                           DaysArray ds \<Rightarrow>
                             (State (a\<lparr>targets := targets', days := ds, activeIdx := 0\<rparr>), [])
                         | _ \<Rightarrow> (Broken targets' v 0 (deleteConfirmIdx a), []))
                else (State a, []))))"

section \<open>CSV export\<close>
















section \<open>A sample state\<close>

text \<open>
  One day with a cardio entry whose name is not chosen yet and a strength entry with a
  fractional weight; the theorems below are instantiated at it.
\<close>

definition sample_cardio :: exercise where
  "sample_cardio = \<lparr>category = Some ''Cardio'', type = Some ''LISS'', group = Some ''-'',
                     name = Some [], weight = Empty, sets = Empty, reps = Empty,
                     duration = Num (Fin 30)\<rparr>"

definition sample_curl :: exercise where
  "sample_curl = \<lparr>category = Some ''Strength'', type = Some ''Pull'', group = Some ''Bicep'',
                   name = Some ''EZ bar curl'', weight = Num (Fin (145 / 2)), sets = Num (Fin 3),
                   reps = Num (Fin 10), duration = Empty\<rparr>"

definition sample_day :: day where
  "sample_day = \<lparr>date = Some ''2025-01-01'', day_calories = Num (Fin 1800),
                  day_protein = Empty, day_carbs = Empty, day_fat = Empty,
                  exercises = Some [Val sample_cardio, Val sample_curl]\<rparr>"

definition sample_app :: app where
  "sample_app = \<lparr>targets = defaultTargets, days = [Val sample_day], activeIdx = 0,
                  deleteConfirmIdx = None\<rparr>"



text \<open>
  Three file contents: \<^verbatim>\<open>{"targets":{"calories":2000,"goalWeight":160},"days":[{},{}]}\<close>,
  \<^verbatim>\<open>{}\<close> and \<^verbatim>\<open>{"days":"ab"}\<close>; \<open>dq s\<close> is \<open>s\<close> between double quotes.
\<close>

definition dq :: "string \<Rightarrow> string" where
  "dq s = [CHR 0x22] @ s @ [CHR 0x22]"

definition file_two_days :: string where
  "file_two_days =
     ''{'' @ dq ''targets'' @ '':{'' @ dq ''calories'' @ '':2000,'' @ dq ''goalWeight''
       @ '':160},'' @ dq ''days'' @ '':[{},{}]}''"

definition file_empty_object :: string where
  "file_empty_object = ''{}''"

definition file_days_text :: string where
  "file_days_text = ''{'' @ dq ''days'' @ '':'' @ dq ''ab'' @ ''}''"

text \<open>
  \<^verbatim>\<open>JSON.parse\<close> on these three and on the text \<^verbatim>\<open>not JSON\<close>, which it rejects (as
  far as the sample goes, it rejects every other text too).
\<close>

definition sample_parse :: "string \<Rightarrow> parsed option" where
  "sample_parse s =
     (if s = file_two_days
      then Some (Object (Some (no_targets_patch\<lparr>calories_t := Some (Fin 2000),
                                                 goalWeight_t := Some (Fin 160)\<rparr>))
                        (DaysArray [Val no_day, Val no_day]))
      else if s = file_empty_object then Some (Object None DaysAbsent)
      else if s = file_days_text then Some (Object None (DaysText ''ab''))
      else None)"

section \<open>The specification's formulas\<close>







section \<open>Properties of binary64 rounding\<close>


lemma expo_hi_bounds: "1 \<le> x \<Longrightarrow> 2 powi expo_hi x \<le> x \<and> x < 2 powi (expo_hi x + 1)"
proof (induction x rule: expo_hi.induct)
  case (1 x)
  show ?case
  proof (cases "x < 2")
    case True
    with "1.prems" show ?thesis by (simp add: expo_hi.simps [of x])
  next
    case False
    then have "1 \<le> x / 2" by simp
    with "1.IH" False
    have ih: "2 powi expo_hi (x / 2) \<le> x / 2" "x / 2 < 2 powi (expo_hi (x / 2) + 1)"
      by simp_all
    have e: "expo_hi x = expo_hi (x / 2) + 1"
      using False by (simp add: expo_hi.simps [of x])
    have p: "2 powi (k + 1) = 2 * (2::real) powi k" for k
      by (simp add: power_int_add)
    have lo: "2 powi (expo_hi (x / 2) + 1) \<le> x"
      using ih(1) p [of "expo_hi (x / 2)"] by linarith
    have hi: "x < 2 powi (expo_hi (x / 2) + 1 + 1)"
      using ih(2) p [of "expo_hi (x / 2) + 1"] by linarith
    show ?thesis
      unfolding e using lo hi by blast
  qed
qed

lemma expo_lo_bounds:
  "0 < x \<Longrightarrow> x < 2 \<Longrightarrow> 2 powi expo_lo x \<le> x \<and> x < 2 powi (expo_lo x + 1)"
proof (induction x rule: expo_lo.induct)
  case (1 x)
  show ?case
  proof (cases "1 \<le> x")
    case True
    with "1.prems" show ?thesis by (simp add: expo_lo.simps [of x])
  next
    case False
    with "1.prems" have c: "\<not> (x \<le> 0 \<or> 1 \<le> x)" "0 < 2 * x" "2 * x < 2"
      by simp_all
    with "1.IH"
    have ih: "2 powi expo_lo (2 * x) \<le> 2 * x" "2 * x < 2 powi (expo_lo (2 * x) + 1)"
      by simp_all
    have e: "expo_lo x = expo_lo (2 * x) - 1"
      using c(1) by (simp add: expo_lo.simps [of x])
    have p: "2 powi (k + 1) = 2 * (2::real) powi k" for k
      by (simp add: power_int_add)
    have lo: "2 powi (expo_lo (2 * x) - 1) \<le> x"
      using ih(1) p [of "expo_lo (2 * x) - 1"] by simp
    have hi: "x < 2 powi (expo_lo (2 * x) - 1 + 1)"
      using ih(2) p [of "expo_lo (2 * x)"] by simp
    show ?thesis
      unfolding e using lo hi by blast
  qed
qed

lemma expo_bounds: "0 < x \<Longrightarrow> 2 powi expo x \<le> x \<and> x < 2 powi (expo x + 1)"
  using expo_hi_bounds [of x] expo_lo_bounds [of x] by (simp add: expo_def)

lemma expo_unique:
  assumes "2 powi e \<le> x" and "x < 2 powi (e + 1)"
  shows "expo x = e"
proof -
  have "(0::real) < 2 powi e" by simp
  with assms(1) have pos: "0 < x" by linarith
  note b = expo_bounds [OF pos]
  have 1: "e < expo x + 1"
  proof (rule ccontr)
    assume "\<not> e < expo x + 1"
    then have "(2::real) powi (expo x + 1) \<le> 2 powi e"
      by (intro power_int_increasing) simp_all
    with assms(1) b show False by linarith
  qed
  have 2: "expo x < e + 1"
  proof (rule ccontr)
    assume "\<not> expo x < e + 1"
    then have "(2::real) powi (e + 1) \<le> 2 powi expo x"
      by (intro power_int_increasing) simp_all
    with assms(2) b show False by linarith
  qed
  from 1 2 show ?thesis by simp
qed






























section \<open>Properties of the macro calculator\<close>








text \<open>
  Claim C2. When the goal weight or the calories are zero, or \<^verbatim>\<open>NaN\<close>, the other
  falsy number, \<open>computeMacros\<close> returns null, and nothing is written: \<open>recalcMacros\<close>
  leaves the application state as it was. In particular computeMacros(0, 1600) = null.
\<close>

theorem computeMacros_null:
  "(goalWeight' = Fin 0 \<or> goalWeight' = NaN \<or> calories' = Fin 0 \<or> calories' = NaN \<longrightarrow>
      computeMacros goalWeight' calories' = None \<and> recalcMacros goalWeight' calories' a = a)
   \<and> computeMacros (Fin 0) (Fin 1600) = None"
  by (auto simp: computeMacros_def recalcMacros_def)

theorem computeMacros_null_witness:
  "computeMacros (Fin 150) (Fin 0) = None
   \<and> recalcMacros (Fin 150) (Fin 0) (defaultState ''2025-01-01'') = defaultState ''2025-01-01''"
  using computeMacros_null [of "Fin 150" "Fin 0" "defaultState ''2025-01-01''"]
  by simp













section \<open>Properties of the calorie check\<close>









section \<open>Properties of the exercise catalog\<close>

lemma js_lookup_own:
  "k \<notin> set Object_prototype_keys \<Longrightarrow>
     js_lookup obj k = (case map_of obj k of Some v \<Rightarrow> Own v | None \<Rightarrow> Missing)"
  by (simp add: js_lookup_def split: option.split)

lemma tree_no_empty_category: "map_of EXERCISE_TREE [] = None"
  by (simp add: EXERCISE_TREE_def)

lemma tree_no_empty_type: "map_of EXERCISE_TREE cat = Some ts \<Longrightarrow> map_of ts [] = None"
  by (auto simp: EXERCISE_TREE_def split: if_splits)

lemma tree_no_empty_group:
  "map_of EXERCISE_TREE cat = Some ts \<Longrightarrow> map_of ts t = Some gs \<Longrightarrow> map_of gs [] = None"
  by (auto simp: EXERCISE_TREE_def split: if_splits)

text \<open>
  \<open>getTypes\<close> returns a sequence for every string: the types of a category of the
  tree, in the tree's order, and the empty sequence for every other string.
\<close>

lemma getTypes_total:
  "getTypes cat = (case map_of EXERCISE_TREE cat of Some ts \<Rightarrow> map fst ts | None \<Rightarrow> [])"
  by (simp add: getTypes_def js_lookup_def EXERCISE_TREE_def)

text \<open>
  For keys that are not names of members of \<^verbatim>\<open>Object.prototype\<close>, \<open>getGroups\<close> and
  \<open>getExercises\<close> return the tree's sequence where the keys are in the tree and the
  empty sequence where a key is absent or empty.
\<close>

lemma getGroups_own:
  assumes "cat \<notin> set Object_prototype_keys"
  shows "getGroups rt cat type' =
     Seq (case map_of EXERCISE_TREE cat of None \<Rightarrow> []
          | Some ts \<Rightarrow> (case map_of ts type' of None \<Rightarrow> [] | Some gs \<Rightarrow> map fst gs))"
  using assms
  by (auto simp: getGroups_def js_lookup_own js_lookup_def tree_no_empty_category
        dest: tree_no_empty_type split: option.split)

lemma getExercises_own:
  assumes "cat \<notin> set Object_prototype_keys" and "type' \<notin> set Object_prototype_keys"
    and "group' \<notin> set Object_prototype_keys"
  shows "getExercises rt cat type' group' =
     Seq (case map_of EXERCISE_TREE cat of None \<Rightarrow> []
          | Some ts \<Rightarrow> (case map_of ts type' of None \<Rightarrow> []
             | Some gs \<Rightarrow> (case map_of gs group' of None \<Rightarrow> [] | Some ns \<Rightarrow> ns)))"
  using assms
  by (auto simp: getExercises_def js_lookup_own tree_no_empty_category
        dest: tree_no_empty_type tree_no_empty_group split: option.split)

lemma catalog_examples:
  "getExercises rt ''Cardio'' ''LISS'' ''-'' = Seq [''Treadmill'', ''Stair Master'', ''Elliptical'']
   \<and> getGroups rt ''Strength'' ''Pull'' = Seq [''Back'', ''Bicep'']
   \<and> getTypes ''Strength'' = [''Pull'', ''Push'', ''Legs'']
   \<and> getTypes [] = [] \<and> getGroups rt ''Strength'' [] = Seq []
   \<and> getExercises rt ''Strength'' ''Pull'' ''Chest'' = Seq []
   \<and> getGroups (\<lambda>path. Absent) ''constructor'' ''x'' = Seq []
   \<and> getGroups (\<lambda>path. Present [''0'', ''1'', ''2'', ''3'', ''4'', ''5'']) ''constructor'' ''name''
        = Seq [''0'', ''1'', ''2'', ''3'', ''4'', ''5'']"
  by (simp add: getExercises_def getGroups_def getTypes_def js_lookup_def EXERCISE_TREE_def
        Object_prototype_keys_def)

text \<open>
  Claim C7 says that the three lookups return an empty sequence for every key
  combination that is absent from the catalog. The program's guards do that for keys
  no object has, and miss the keys every object inherits: "constructor" is not a group
  of Cardio/LISS (its only group is "-"), and \<open>getExercises\<close> returns the inherited
  member, the function \<^verbatim>\<open>Object\<close>, which is neither empty nor a sequence.
\<close>

theorem getExercises_inherited_key:
  "getExercises rt ''Cardio'' ''LISS'' ''constructor'' = Builtin ''constructor''
   \<and> getExercises rt ''Cardio'' ''LISS'' ''constructor'' \<noteq> Seq []
   \<and> getGroups rt ''Cardio'' ''LISS'' = Seq [''-'']"
  by (simp add: getExercises_def getGroups_def js_lookup_def EXERCISE_TREE_def
        Object_prototype_keys_def)

section \<open>Properties of the application state\<close>

lemma length_js_copy: "length (js_copy xs) = length xs"
  by (simp add: js_copy_def)

lemma js_read_js_copy: "js_read (js_copy xs) i = js_read xs i"
  by (simp add: js_read_def js_copy_def split: slot.split)

lemma js_assign_nonempty: "js_assign xs i v \<noteq> []"
  by (auto simp: js_assign_def)

lemma length_js_assign: "length (js_assign xs i v) = max (length xs) (Suc i)"
  by (auto simp: js_assign_def)

lemma js_read_js_assign:
  "js_read (js_assign xs i v) j = (if j = i then Some v else js_read xs j)"
  by (auto simp: js_read_def js_assign_def nth_append nth_Cons' split: slot.split)

lemma days_setActiveDay: "days (setActiveDay p a) \<noteq> []"
  by (simp add: setActiveDay_def Let_def js_assign_nonempty)

lemma days_updateExercise: "days (updateExercise i q a) \<noteq> []"
  by (simp add: updateExercise_def Let_def js_assign_nonempty)

lemma days_removeExercise: "days (removeExercise i a) \<noteq> []"
  by (simp add: removeExercise_def Let_def js_assign_nonempty)

lemma days_replaceExerciseWithAll: "days (replaceExerciseWithAll i c t g ns a) \<noteq> []"
  by (simp add: replaceExerciseWithAll_def Let_def js_assign_nonempty)

lemma days_deleteDay: "days (deleteDay today idx a) \<noteq> []"
  by (simp add: deleteDay_def Let_def)

lemma days_importJSON:
  "days a \<noteq> [] \<Longrightarrow> fst (importJSON parse chosen a) = State a' \<Longrightarrow> days a' \<noteq> []"
  by (auto simp: importJSON_def truthy_length_def Let_def
        split: option.splits parsed.splits days_value.splits if_splits)

lemma deleteDay_last:
  "length (days a) = 1 \<Longrightarrow> days (deleteDay today 0 a) = [Val (emptyDay today today)]"
proof -
  assume "length (days a) = 1"
  then obtain s where s: "days a = [s]"
    by (cases "days a") auto
  show ?thesis
    by (cases s) (simp_all add: deleteDay_def js_filter_index_def s)
qed

text \<open>
  Claim C5. The list of days is never empty: every operation on the application state
  (a field edit, a new day, the deletion of a day, the exercise edits, the recomputation
  of the targets) leaves a non-empty list of days, every state with a list of days that
  an import leaves has a non-empty one, and deleting the only day of the list yields
  exactly one fresh empty record dated today.
\<close>

theorem days_never_empty:
  "(days a \<noteq> [] \<longrightarrow>
      days (setActiveDay p a) \<noteq> [] \<and> days (addNewDay today a) \<noteq> []
      \<and> days (deleteDay today idx a) \<noteq> [] \<and> days (addExercise today a) \<noteq> []
      \<and> days (updateExercise i q a) \<noteq> [] \<and> days (removeExercise i a) \<noteq> []
      \<and> days (replaceExerciseWithAll i c t g ns a) \<noteq> []
      \<and> days (onNameSelect i ex ns v a) \<noteq> []
      \<and> days (recalcMacros gw cals a) \<noteq> []
      \<and> (\<forall>a'. fst (importJSON parse chosen a) = State a' \<longrightarrow> days a' \<noteq> []))
   \<and> (length (days a) = 1 \<longrightarrow> days (deleteDay today 0 a) = [Val (emptyDay today today)])
   \<and> emptyDay today today =
        \<lparr>date = Some today, day_calories = Empty, day_protein = Empty, day_carbs = Empty,
         day_fat = Empty, exercises = Some []\<rparr>"
proof -
  have "days (onNameSelect i ex ns v a) \<noteq> []"
    by (simp add: onNameSelect_def Let_def days_replaceExerciseWithAll days_updateExercise)
  moreover have "days (addExercise today a) \<noteq> []"
    by (simp add: addExercise_def Let_def days_setActiveDay)
  moreover have "days (addNewDay today a) \<noteq> []"
    by (simp add: addNewDay_def)
  moreover have "days a \<noteq> [] \<longrightarrow> days (recalcMacros gw cals a) \<noteq> []"
    by (simp add: recalcMacros_def split: option.split)
  moreover have "emptyDay today today =
        \<lparr>date = Some today, day_calories = Empty, day_protein = Empty, day_carbs = Empty,
         day_fat = Empty, exercises = Some []\<rparr>"
    by (simp add: emptyDay_def)
  moreover have "days a \<noteq> [] \<longrightarrow>
      (\<forall>a'. fst (importJSON parse chosen a) = State a' \<longrightarrow> days a' \<noteq> [])"
    using days_importJSON [of a parse chosen] by blast
  ultimately show ?thesis
    by (simp add: days_setActiveDay days_updateExercise days_removeExercise
          days_replaceExerciseWithAll days_deleteDay deleteDay_last)
qed

theorem days_never_empty_witness:
  "days (deleteDay ''2025-01-01'' 0 (defaultState ''2025-01-01''))
     = [Val \<lparr>date = Some ''2025-01-01'', day_calories = Empty, day_protein = Empty,
             day_carbs = Empty, day_fat = Empty, exercises = Some []\<rparr>]
   \<and> days (recalcMacros (Fin 150) (Fin 1800) (defaultState ''2025-01-01'')) \<noteq> []
   \<and> days (removeExercise 0 (defaultState ''2025-01-01'')) \<noteq> []"
  using days_never_empty [where a = "defaultState ''2025-01-01''" and today = "''2025-01-01''"
      and gw = "Fin 150" and cals = "Fin 1800" and i = 0 and p = no_day_patch and idx = 0
      and q = no_patch and c = None and t = None and g = None and ns = "[]"
      and ex = no_exercise and v = "[]" and parse = "\<lambda>s. None" and chosen = None]
  by (simp add: defaultState_def emptyDay_def)


text \<open>
  Claim C9. \<open>updateExercise\<close>, \<open>removeExercise\<close> and \<open>replaceExerciseWithAll\<close> change
  only the exercises of the day at the active index: the targets (and the two indices)
  are unchanged, the day read at every other index is unchanged, the list of days keeps
  its length when the active index is within it, and the active day keeps every field
  but \<open>exercises\<close>.
\<close>

theorem exercise_edits_frame:
  assumes "a' = updateExercise i q a \<or> a' = removeExercise i a
             \<or> a' = replaceExerciseWithAll i c t g ns a"
  shows "targets a' = targets a \<and> activeIdx a' = activeIdx a
           \<and> deleteConfirmIdx a' = deleteConfirmIdx a
           \<and> (j \<noteq> activeIdx a \<longrightarrow> js_read (days a') j = js_read (days a) j)
           \<and> (activeIdx a < length (days a) \<longrightarrow> length (days a') = length (days a))
           \<and> (js_read (days a) (activeIdx a) = Some d \<longrightarrow>
                 (\<exists>exs'. js_read (days a') (activeIdx a) = Some (d\<lparr>exercises := Some exs'\<rparr>)))"
  using assms
  by (auto simp: updateExercise_def removeExercise_def replaceExerciseWithAll_def Let_def
        js_read_js_assign js_read_js_copy length_js_assign length_js_copy spread_day_def)

theorem exercise_edits_frame_witness:
  "js_read (days (removeExercise 0 (addNewDay ''2025-01-02'' (defaultState ''2025-01-01'')))) 1
     = Some (emptyDay ''2025-01-01'' ''2025-01-01'')
   \<and> targets (removeExercise 0 (addNewDay ''2025-01-02'' (defaultState ''2025-01-01'')))
       = defaultTargets
   \<and> length (days (removeExercise 0 (addNewDay ''2025-01-02'' (defaultState ''2025-01-01'')))) = 2
   \<and> (\<exists>exs'. js_read (days (removeExercise 0
                (addNewDay ''2025-01-02'' (defaultState ''2025-01-01'')))) 0
              = Some (emptyDay ''2025-01-02'' ''2025-01-02''\<lparr>exercises := Some exs'\<rparr>))"
proof -
  define A where "A = addNewDay ''2025-01-02'' (defaultState ''2025-01-01'')"
  have act: "activeIdx A = 0" and len: "length (days A) = 2"
    and rd: "js_read (days A) 1 = Some (emptyDay ''2025-01-01'' ''2025-01-01'')"
    and tg: "targets A = defaultTargets"
    and rd0: "js_read (days A) 0 = Some (emptyDay ''2025-01-02'' ''2025-01-02'')"
    by (simp_all add: A_def addNewDay_def defaultState_def js_read_def js_copy_def)
  have "js_read (days (removeExercise 0 A)) 1 = Some (emptyDay ''2025-01-01'' ''2025-01-01'')
     \<and> targets (removeExercise 0 A) = defaultTargets
     \<and> length (days (removeExercise 0 A)) = 2
     \<and> (\<exists>exs'. js_read (days (removeExercise 0 A)) 0
              = Some (emptyDay ''2025-01-02'' ''2025-01-02''\<lparr>exercises := Some exs'\<rparr>))"
    using exercise_edits_frame [where a = A and a' = "removeExercise 0 A" and i = 0 and j = 1
        and d = "emptyDay ''2025-01-02'' ''2025-01-02''"]
      act len rd tg rd0
    by simp
  then show ?thesis
    unfolding A_def .
qed

section \<open>Expanding an entry to all exercises of its group\<close>


lemma length_js_splice1:
  "i < length ys \<Longrightarrow> length (js_splice1 ys i items) = length ys - 1 + length items"
  by (auto simp: js_splice1_def)

lemma js_read_splice1_before:
  "i < length ys \<Longrightarrow> j < i \<Longrightarrow> js_read (js_splice1 ys i items) j = js_read ys j"
  by (auto simp: js_read_def js_splice1_def nth_append)

lemma js_read_splice1_items:
  "i < length ys \<Longrightarrow> k < length items \<Longrightarrow>
     js_read (js_splice1 ys i items) (i + k) = js_read items k"
  by (auto simp: js_read_def js_splice1_def nth_append)

lemma js_read_splice1_after:
  assumes "i < j" and "j < length ys"
  shows "js_read (js_splice1 ys i items) (j + length items - 1) = js_read ys j"
proof -
  obtain m where m: "j = Suc (i + m)"
    using assms(1) less_imp_Suc_add by blast
  define zs where "zs = take i ys @ items @ drop (Suc i) ys"
  have li: "length (take i ys) = i"
    using assms by simp
  have "(take i ys @ items @ drop (Suc i) ys) ! (length (take i ys) + (length items + m))
          = (items @ drop (Suc i) ys) ! (length items + m)"
    by (rule nth_append_length_plus)
  also have "\<dots> = drop (Suc i) ys ! m"
    by (rule nth_append_length_plus)
  also have "\<dots> = ys ! j"
    using assms m by simp
  finally have nth: "zs ! (i + (length items + m)) = ys ! j"
    unfolding li zs_def .
  have idx: "j + length items - 1 = i + (length items + m)"
    using m by simp
  have len: "i + (length items + m) < length zs"
    unfolding zs_def using assms m by simp
  have "js_read zs (i + (length items + m)) = js_read ys j"
    unfolding js_read_def using nth len assms(2) by simp
  then show ?thesis
    unfolding js_splice1_def idx zs_def .
qed

lemma cardio_group:
  "getExercises rt ''Cardio'' t g = Seq ns \<Longrightarrow> ns \<noteq> [] \<Longrightarrow> g = ''-''"
  by (auto simp add: getExercises_def js_lookup_def EXERCISE_TREE_def
        split: if_splits rtval.splits)


text \<open>
  Claim C4. When the name selector of entry \<open>i\<close> of the active day receives the value
  "__ALL__" and the catalog lists \<open>N\<close> names for the entry's category, type and group,
  the entry at position \<open>i\<close> is replaced, in place, by \<open>N\<close> entries, one per name in the
  catalog's order, each with the entry's category, type and group and with empty weight,
  sets, reps and duration; the entries before \<open>i\<close> keep their positions and those after
  \<open>i\<close> move by \<open>N - 1\<close>. Nothing else of the day changes.
\<close>

theorem select_all_expands:
  assumes day: "js_read (days a) (activeIdx a) = Some d"
    and exs: "exercises d = Some exs"
    and ex: "js_read exs i = Some ex"
    and keys: "category ex = Some cat" "type ex = Some ty" "group ex = Some grp"
    and names: "getExercises rt cat ty grp = Seq names"
  shows "\<exists>exs'. js_read (days (onNameSelect i ex names ''__ALL__'' a)) (activeIdx a)
                  = Some (d\<lparr>exercises := Some exs'\<rparr>)
           \<and> length exs' = length exs - 1 + length names
           \<and> (\<forall>j<i. js_read exs' j = js_read exs j)
           \<and> (\<forall>k<length names. js_read exs' (i + k)
                  = Some \<lparr>category = Some cat, type = Some ty, group = Some grp,
                          name = Some (names ! k), weight = Empty, sets = Empty,
                          reps = Empty, duration = Empty\<rparr>)
           \<and> (\<forall>j. i < j \<and> j < length exs \<longrightarrow>
                  js_read exs' (j + length names - 1) = js_read exs j)"
proof -
  define item where "item = (\<lambda>g n. Val \<lparr>category = Some cat, type = Some ty, group = g,
      name = Some n, weight = Empty, sets = Empty, reps = Empty, duration = Empty\<rparr>)"
  define g' where "g' = (if category ex = Some ''Cardio'' then Some ''-'' else group ex)"
  define ys where "ys = js_copy exs"
  define exs' where "exs' = js_splice1 ys i (map (item (Some grp)) names)"
  have g': "names \<noteq> [] \<Longrightarrow> g' = Some grp"
    using keys names cardio_group [of rt ty grp names] by (auto simp: g'_def)
  have items: "map (item g') names = map (item (Some grp)) names"
    using g' by (cases names) simp_all
  have i: "i < length ys"
    using ex by (simp add: ys_def length_js_copy js_read_def split: if_splits)
  have len: "length ys = length exs"
    by (simp add: ys_def length_js_copy)
  have rd: "js_read ys j = js_read exs j" for j
    by (simp add: ys_def js_read_js_copy)
  have "onNameSelect i ex names ''__ALL__'' a
          = a\<lparr>days := js_assign (js_copy (days a)) (activeIdx a)
                        (d\<lparr>exercises := Some (js_splice1 ys i (map (item g') names))\<rparr>)\<rparr>"
    using day exs keys
    by (simp add: onNameSelect_def replaceExerciseWithAll_def Let_def js_read_js_copy
          spread_day_def exercisesOrEmpty_def ys_def item_def g'_def)
  then have res: "js_read (days (onNameSelect i ex names ''__ALL__'' a)) (activeIdx a)
                    = Some (d\<lparr>exercises := Some exs'\<rparr>)"
    by (simp add: js_read_js_assign items exs'_def)
  have l: "length exs' = length exs - 1 + length names"
    using i by (simp add: exs'_def length_js_splice1 len)
  have before: "\<forall>j<i. js_read exs' j = js_read exs j"
    using i by (simp add: exs'_def js_read_splice1_before rd)
  have mid: "\<forall>k<length names. js_read exs' (i + k)
                  = Some \<lparr>category = Some cat, type = Some ty, group = Some grp,
                          name = Some (names ! k), weight = Empty, sets = Empty,
                          reps = Empty, duration = Empty\<rparr>"
    using i by (simp add: exs'_def js_read_splice1_items) (simp add: js_read_def item_def)
  have after: "\<forall>j. i < j \<and> j < length exs \<longrightarrow>
                  js_read exs' (j + length names - 1) = js_read exs j"
    using js_read_splice1_after [of i _ ys "map (item (Some grp)) names"]
    by (simp add: exs'_def len rd)
  from res l before mid after show ?thesis
    by blast
qed

theorem select_all_expands_witness:
  "\<exists>exs'. js_read (days (onNameSelect 0 sample_cardio
                  [''Treadmill'', ''Stair Master'', ''Elliptical''] ''__ALL__'' sample_app)) 0
              = Some (sample_day\<lparr>exercises := Some exs'\<rparr>)
         \<and> length exs' = 4
         \<and> js_read exs' 0
             = Some \<lparr>category = Some ''Cardio'', type = Some ''LISS'', group = Some ''-'',
                     name = Some ''Treadmill'', weight = Empty, sets = Empty,
                     reps = Empty, duration = Empty\<rparr>
         \<and> js_read exs' 2
             = Some \<lparr>category = Some ''Cardio'', type = Some ''LISS'', group = Some ''-'',
                     name = Some ''Elliptical'', weight = Empty, sets = Empty,
                     reps = Empty, duration = Empty\<rparr>
         \<and> js_read exs' 3 = Some sample_curl"
proof -
  have h1: "js_read (days sample_app) (activeIdx sample_app) = Some sample_day"
    by (simp add: sample_app_def js_read_def)
  have h2: "exercises sample_day = Some [Val sample_cardio, Val sample_curl]"
    by (simp add: sample_day_def)
  have h3: "js_read [Val sample_cardio, Val sample_curl] 0 = Some sample_cardio"
    by (simp add: js_read_def)
  have h4: "category sample_cardio = Some ''Cardio''" "type sample_cardio = Some ''LISS''"
    "group sample_cardio = Some ''-''"
    by (simp_all add: sample_cardio_def)
  have h5: "getExercises (\<lambda>path. Absent) ''Cardio'' ''LISS'' ''-''
              = Seq [''Treadmill'', ''Stair Master'', ''Elliptical'']"
    by (simp add: getExercises_def js_lookup_def EXERCISE_TREE_def)
  have a0: "activeIdx sample_app = 0"
    by (simp add: sample_app_def)
  have r1: "js_read [Val sample_cardio, Val sample_curl] 1 = Some sample_curl"
    by (simp add: js_read_def)
  from select_all_expands [OF h1 h2 h3 h4 h5]
  obtain exs' where
    e1: "js_read (days (onNameSelect 0 sample_cardio
            [''Treadmill'', ''Stair Master'', ''Elliptical''] ''__ALL__'' sample_app)) 0
          = Some (sample_day\<lparr>exercises := Some exs'\<rparr>)"
    and e2: "length exs' = 4"
    and e3: "\<forall>k<3. js_read exs' (0 + k)
                  = Some \<lparr>category = Some ''Cardio'', type = Some ''LISS'', group = Some ''-'',
                          name = Some ([''Treadmill'', ''Stair Master'', ''Elliptical''] ! k),
                          weight = Empty, sets = Empty, reps = Empty, duration = Empty\<rparr>"
    and e4: "\<forall>j. 0 < j \<and> j < 2 \<longrightarrow> js_read exs' (j + 3 - 1)
                  = js_read [Val sample_cardio, Val sample_curl] j"
    unfolding a0 by auto
  have k0: "js_read exs' 0
             = Some \<lparr>category = Some ''Cardio'', type = Some ''LISS'', group = Some ''-'',
                     name = Some ''Treadmill'', weight = Empty, sets = Empty,
                     reps = Empty, duration = Empty\<rparr>"
    using e3 [rule_format, of 0] by simp
  have k2: "js_read exs' 2
             = Some \<lparr>category = Some ''Cardio'', type = Some ''LISS'', group = Some ''-'',
                     name = Some ''Elliptical'', weight = Empty, sets = Empty,
                     reps = Empty, duration = Empty\<rparr>"
    using e3 [rule_format, of 2] by (simp add: numeral_2_eq_2)
  have k3: "js_read exs' 3 = Some sample_curl"
    using e4 [rule_format, of 1] r1 by (simp add: numeral_3_eq_3)
  from e1 e2 k0 k2 k3 show ?thesis
    by blast
qed
section \<open>Properties of the JSON import\<close>

text \<open>
  Claim C6 says that a file which fails to parse or lacks a \<^verbatim>\<open>days\<close> sequence leaves
  the state unchanged and that an error is shown to the user. The outcomes of
  \<open>importJSON\<close> are these. A file that parses to an object with a non-empty \<^verbatim>\<open>days\<close>
  array replaces the state: each target is the file's where the file has one and the
  default otherwise, the days are the file's days as they are, and the first day becomes
  the active one. A file that does not parse leaves the state unchanged and raises the
  alert "Invalid JSON file". A file that parses but is not an object, or has no
  \<^verbatim>\<open>days\<close>, or an empty one, leaves the state unchanged, and nothing is shown to the
  user: the alert of the claim is missing. And a file whose \<^verbatim>\<open>days\<close> is not a
  sequence but has a truthy \<^verbatim>\<open>length\<close>, a non-empty string for one, replaces the
  state although the claim has it retained: \<^verbatim>\<open>days\<close> becomes that value.
\<close>

theorem importJSON_outcomes:
  assumes tg: "tg =
      \<lparr>calories = (case t of None \<Rightarrow> Fin 1800
                   | Some tp \<Rightarrow> (case calories_t tp of None \<Rightarrow> Fin 1800 | Some v \<Rightarrow> v)),
       protein = (case t of None \<Rightarrow> Fin 130
                  | Some tp \<Rightarrow> (case protein_t tp of None \<Rightarrow> Fin 130 | Some v \<Rightarrow> v)),
       fat = (case t of None \<Rightarrow> Fin 60
              | Some tp \<Rightarrow> (case fat_t tp of None \<Rightarrow> Fin 60 | Some v \<Rightarrow> v)),
       carbs = (case t of None \<Rightarrow> Fin 160
                | Some tp \<Rightarrow> (case carbs_t tp of None \<Rightarrow> Fin 160 | Some v \<Rightarrow> v)),
       goalWeight = (case t of None \<Rightarrow> Fin 150
                     | Some tp \<Rightarrow> (case goalWeight_t tp of None \<Rightarrow> Fin 150 | Some v \<Rightarrow> v))\<rparr>"
  shows "(parse content = Some (Object t (DaysArray ds)) \<and> ds \<noteq> [] \<longrightarrow>
      importJSON parse (Some content) a
        = (State (a\<lparr>targets := tg, days := ds, activeIdx := 0\<rparr>), []))
   \<and> (parse content = None \<longrightarrow>
        importJSON parse (Some content) a = (State a, [''Invalid JSON file'']))
   \<and> (parse content = Some NotAnObject \<or> parse content = Some (Object t DaysAbsent)
        \<or> parse content = Some (Object t (DaysArray []))
        \<or> parse content = Some (Object t (DaysText []))
        \<or> parse content = Some (Object t (DaysOther False)) \<longrightarrow>
        importJSON parse (Some content) a = (State a, []))
   \<and> (parse content = Some (Object t (DaysText s)) \<and> s \<noteq> [] \<longrightarrow>
        importJSON parse (Some content) a
          = (Broken tg (DaysText s) 0 (deleteConfirmIdx a), []))
   \<and> (parse content = Some (Object t (DaysOther True)) \<longrightarrow>
        importJSON parse (Some content) a
          = (Broken tg (DaysOther True) 0 (deleteConfirmIdx a), []))
   \<and> importJSON parse None a = (State a, [])"
  unfolding tg
  by (auto simp: importJSON_def truthy_length_def merge_targets_def defaultTargets_def
        no_targets_patch_def Let_def split: option.splits)

text \<open>
  The four outcomes at the sample state: the file with two days and two targets, text
  that is not JSON, the file \<^verbatim>\<open>{}\<close>, and the file \<^verbatim>\<open>{"days":"ab"}\<close>.
\<close>

theorem importJSON_outcomes_witness:
  "importJSON sample_parse (Some file_two_days) sample_app
     = (State \<lparr>targets = \<lparr>calories = Fin 2000, protein = Fin 130, fat = Fin 60,
                            carbs = Fin 160, goalWeight = Fin 160\<rparr>,
               days = [Val no_day, Val no_day], activeIdx = 0, deleteConfirmIdx = None\<rparr>, [])
   \<and> importJSON sample_parse (Some ''not JSON'') sample_app
       = (State sample_app, [''Invalid JSON file''])
   \<and> importJSON sample_parse (Some file_empty_object) sample_app = (State sample_app, [])
   \<and> importJSON sample_parse (Some file_days_text) sample_app
       = (Broken defaultTargets (DaysText ''ab'') 0 None, [])"
proof -
  have p1: "sample_parse file_two_days
              = Some (Object (Some (no_targets_patch\<lparr>calories_t := Some (Fin 2000),
                                                      goalWeight_t := Some (Fin 160)\<rparr>))
                             (DaysArray [Val no_day, Val no_day]))"
    and p2: "sample_parse ''not JSON'' = None"
    and p3: "sample_parse file_empty_object = Some (Object None DaysAbsent)"
    and p4: "sample_parse file_days_text = Some (Object None (DaysText ''ab''))"
    by (simp_all add: sample_parse_def file_two_days_def file_empty_object_def
          file_days_text_def dq_def)
  note t1 = importJSON_outcomes [where parse = sample_parse and content = file_two_days
      and t = "Some (no_targets_patch\<lparr>calories_t := Some (Fin 2000),
                                       goalWeight_t := Some (Fin 160)\<rparr>)"
      and tg = "\<lparr>calories = Fin 2000, protein = Fin 130, fat = Fin 60, carbs = Fin 160,
                  goalWeight = Fin 160\<rparr>"
      and ds = "[Val no_day, Val no_day]" and a = sample_app]
  note t2 = importJSON_outcomes [where parse = sample_parse and content = "''not JSON''"
      and t = None and tg = defaultTargets and a = sample_app]
  note t3 = importJSON_outcomes [where parse = sample_parse and content = file_empty_object
      and t = None and tg = defaultTargets and a = sample_app]
  note t4 = importJSON_outcomes [where parse = sample_parse and content = file_days_text
      and t = None and tg = defaultTargets and s = "''ab''" and a = sample_app]
  have d: "deleteConfirmIdx sample_app = None"
    by (simp add: sample_app_def)
  have "importJSON sample_parse (Some file_two_days) sample_app
     = (State \<lparr>targets = \<lparr>calories = Fin 2000, protein = Fin 130, fat = Fin 60,
                            carbs = Fin 160, goalWeight = Fin 160\<rparr>,
               days = [Val no_day, Val no_day], activeIdx = 0, deleteConfirmIdx = None\<rparr>, [])"
    using t1 p1 by (simp add: no_targets_patch_def sample_app_def)
  moreover have "importJSON sample_parse (Some ''not JSON'') sample_app
       = (State sample_app, [''Invalid JSON file''])"
    using t2 p2 by (simp add: defaultTargets_def)
  moreover have "importJSON sample_parse (Some file_empty_object) sample_app
       = (State sample_app, [])"
    using t3 p3 by (simp add: defaultTargets_def)
  moreover have "importJSON sample_parse (Some file_days_text) sample_app
       = (Broken defaultTargets (DaysText ''ab'') 0 None, [])"
    using t4 p4 d by (simp add: defaultTargets_def)
  ultimately show ?thesis
    by blast
qed

section \<open>Properties of the CSV export\<close>














end
